theory Spec2Isabelle
  imports Complex_Main "HOL-Library.Sublist"
begin

section \<open>ClaudeMetrics server: pricing, ledger and relay\<close>

text \<open>
  A shallow embedding of \<^verbatim>\<open>server.js\<close>. JavaScript numbers that count tokens are
  modelled as \<^typ>\<open>int\<close> and costs as \<^typ>\<open>rat\<close> (exact arithmetic; the rounding of
  IEEE doubles is not modelled). A property that may be absent on a JavaScript object is
  an \<^typ>\<open>'a option\<close>, \<open>None\<close> standing for \<^verbatim>\<open>undefined\<close> or \<^verbatim>\<open>null\<close>. Values
  that the server obtains from its environment (the clock, \<^verbatim>\<open>crypto.randomUUID\<close>, the
  upstream response, the outcome of a database write, \<^verbatim>\<open>JSON.parse\<close>) are explicit
  inputs of the functions that read them.
\<close>

subsection \<open>JavaScript helpers\<close>

text \<open>\<^verbatim>\<open>x || d\<close> for a number: \<open>0\<close> and a missing value are falsy.\<close>

definition or_num :: "int option \<Rightarrow> int \<Rightarrow> int" where
  "or_num x d = (case x of None \<Rightarrow> d | Some n \<Rightarrow> if n = 0 then d else n)"

text \<open>\<^verbatim>\<open>x || d\<close> for a string: the empty string and a missing value are falsy.\<close>

definition or_str :: "string option \<Rightarrow> string \<Rightarrow> string" where
  "or_str x d = (case x of None \<Rightarrow> d | Some s \<Rightarrow> if s = [] then d else s)"

text \<open>\<^verbatim>\<open>s.startsWith(k)\<close>.\<close>

definition startsWith :: "string \<Rightarrow> string \<Rightarrow> bool" where
  "startsWith s k = prefix k s"

text \<open>\<^verbatim>\<open>text.split('\n')\<close>: the empty text gives one empty line.\<close>

fun split_nl :: "string \<Rightarrow> string list" where
  "split_nl [] = [[]]"
| "split_nl (c # cs) =
     (if c = CHR 0x0A then [] # split_nl cs
      else (case split_nl cs of
              [] \<Rightarrow> [[c]]
            | l # ls \<Rightarrow> (c # l) # ls))"

subsection \<open>Pricing table and \<^verbatim>\<open>calcCost\<close>\<close>

record price =
  p_in :: rat
  p_out :: rat

definition PRICES :: "(string \<times> price) list" where
  "PRICES =
     [(''claude-opus-4-5'',            \<lparr>p_in = 15,     p_out = 75\<rparr>),
      (''claude-sonnet-4-5'',          \<lparr>p_in = 3,      p_out = 15\<rparr>),
      (''claude-haiku-4-5'',           \<lparr>p_in = 4 / 5,  p_out = 4\<rparr>),
      (''claude-3-opus-20240229'',     \<lparr>p_in = 15,     p_out = 75\<rparr>),
      (''claude-3-5-sonnet-20241022'', \<lparr>p_in = 3,      p_out = 15\<rparr>),
      (''claude-3-haiku-20240307'',    \<lparr>p_in = 1 / 4,  p_out = 5 / 4\<rparr>),
      (''claude-3-5-haiku-20241022'',  \<lparr>p_in = 4 / 5,  p_out = 4\<rparr>)]"

text \<open>
  \<^verbatim>\<open>Object.keys(PRICES).find(k => model.startsWith(k) || k.startsWith(model))\<close>:
  the first key, in the table's order, in a prefix relation with the model.
\<close>

definition find_key :: "string \<Rightarrow> string option" where
  "find_key model =
     List.find (\<lambda>k. startsWith model k \<or> startsWith k model) (map fst PRICES)"

definition price_key :: "string \<Rightarrow> string" where
  "price_key model = (case find_key model of None \<Rightarrow> ''claude-sonnet-4-5'' | Some k \<Rightarrow> k)"

text \<open>
  \<^verbatim>\<open>PRICES[key]\<close> is read with \<^const>\<open>the\<close>; lemma \<open>PRICES_key_defined\<close> below shows
  that the entry always exists.
\<close>

definition calcCost :: "string \<Rightarrow> int \<Rightarrow> int \<Rightarrow> rat" where
  "calcCost model inputTok outputTok =
     (let p = the (map_of PRICES (price_key model))
      in (of_int inputTok * p_in p + of_int outputTok * p_out p) / 1000000)"

subsection \<open>The ledger: tables \<^verbatim>\<open>requests\<close> and \<^verbatim>\<open>daily_summary\<close>\<close>

text \<open>The object \<^verbatim>\<open>record\<close> that \<^verbatim>\<open>logRequest\<close> builds and returns.\<close>

record usage_record =
  request_id :: string
  model :: string
  input_tokens :: int
  output_tokens :: int
  cache_read_tokens :: int
  cache_write_tokens :: int
  cost_usd :: rat
  source :: string
  endpoint :: string

text \<open>
  A row of \<^verbatim>\<open>requests\<close>: the bound columns, the AUTOINCREMENT key and
  \<^verbatim>\<open>created_at\<close>, which defaults to SQLite's \<^verbatim>\<open>datetime('now')\<close>.
\<close>

record request_row =
  row_id :: nat
  row_rec :: usage_record
  created_at :: string

record daily =
  total_cost :: rat
  total_requests :: int
  total_input_tokens :: int
  total_output_tokens :: int
  updated_at :: string

text \<open>
  The database: the rows of \<^verbatim>\<open>requests\<close> in insertion order, the AUTOINCREMENT
  counter, and \<^verbatim>\<open>daily_summary\<close> keyed by its primary key \<^verbatim>\<open>date\<close>.
\<close>

record ledger =
  requests :: "request_row list"
  seq :: nat
  daily_summary :: "string \<rightharpoonup> daily"

definition empty_ledger :: ledger where
  "empty_ledger = \<lparr>requests = [], seq = 0, daily_summary = Map.empty\<rparr>"

text \<open>
  \<^verbatim>\<open>INSERT OR IGNORE INTO requests\<close>: a row whose \<^verbatim>\<open>request_id\<close> violates the
  UNIQUE constraint is dropped without an error.
\<close>

definition insertRequest :: "string \<Rightarrow> usage_record \<Rightarrow> ledger \<Rightarrow> ledger" where
  "insertRequest now record L =
     (if request_id record \<in> set (map (\<lambda>r. request_id (row_rec r)) (requests L)) then L
      else L\<lparr>requests := requests L @
                 [\<lparr>row_id = Suc (seq L), row_rec = record, created_at = now\<rparr>],
             seq := Suc (seq L)\<rparr>)"

text \<open>
  \<^verbatim>\<open>INSERT INTO daily_summary ... ON CONFLICT(date) DO UPDATE SET ...\<close>: a new row
  for a new date, the running totals increased otherwise.
\<close>

definition updateDaily :: "string \<Rightarrow> string \<Rightarrow> rat \<Rightarrow> int \<Rightarrow> int \<Rightarrow> ledger \<Rightarrow> ledger" where
  "updateDaily now date cost input output L =
     L\<lparr>daily_summary := (daily_summary L)(date \<mapsto>
        (case daily_summary L date of
           None \<Rightarrow>
             \<lparr>total_cost = cost, total_requests = 1, total_input_tokens = input,
              total_output_tokens = output, updated_at = now\<rparr>
         | Some d \<Rightarrow>
             \<lparr>total_cost = total_cost d + cost,
              total_requests = total_requests d + 1,
              total_input_tokens = total_input_tokens d + input,
              total_output_tokens = total_output_tokens d + output,
              updated_at = now\<rparr>))\<rparr>"

text \<open>The argument \<^verbatim>\<open>data\<close> of \<^verbatim>\<open>logRequest\<close>.\<close>

record log_data =
  d_request_id :: "string option"
  d_model :: string
  d_input_tokens :: "int option"
  d_output_tokens :: "int option"
  d_cache_read_tokens :: "int option"
  d_cache_write_tokens :: "int option"
  d_source :: "string option"
  d_endpoint :: "string option"

text \<open>
  What one call of \<^verbatim>\<open>logRequest\<close> reads from its environment: the value
  \<^verbatim>\<open>crypto.randomUUID()\<close> returns if it is called, the JavaScript clock as
  \<^verbatim>\<open>new Date().toISOString()\<close>, SQLite's \<^verbatim>\<open>datetime('now')\<close>, and whether the
  transaction throws (\<open>Some msg\<close>: it throws an error with that message and is rolled
  back).
\<close>

record log_env =
  uuid :: string
  js_now :: string
  db_now :: string
  db_error :: "string option"

definition logRequest :: "log_env \<Rightarrow> log_data \<Rightarrow> ledger \<Rightarrow> string + (usage_record \<times> ledger)" where
  "logRequest env data L =
     (let record =
            \<lparr>request_id = or_str (d_request_id data) (uuid env),
             model = d_model data,
             input_tokens = or_num (d_input_tokens data) 0,
             output_tokens = or_num (d_output_tokens data) 0,
             cache_read_tokens = or_num (d_cache_read_tokens data) 0,
             cache_write_tokens = or_num (d_cache_write_tokens data) 0,
             cost_usd = calcCost (d_model data) (or_num (d_input_tokens data) 0)
                          (or_num (d_output_tokens data) 0),
             source = or_str (d_source data) ''proxy'',
             endpoint = or_str (d_endpoint data) ''/v1/messages''\<rparr>;
          today = take 10 (js_now env)
      in case db_error env of
           Some msg \<Rightarrow> Inl msg
         | None \<Rightarrow>
             Inr (record,
                  updateDaily (db_now env) today (cost_usd record) (input_tokens record)
                    (output_tokens record) (insertRequest (db_now env) record L)))"

subsection \<open>Provider payloads as the relay reads them\<close>

text \<open>
  The \<^verbatim>\<open>usage\<close> object of a response or of a streamed event. A field is \<open>None\<close>
  when it is absent; field values that are not numbers are outside the model.
\<close>

record usage =
  u_input_tokens :: "int option"
  u_output_tokens :: "int option"
  u_cache_read_input_tokens :: "int option"
  u_cache_creation_input_tokens :: "int option"

definition empty_usage :: usage where
  "empty_usage =
     \<lparr>u_input_tokens = None, u_output_tokens = None, u_cache_read_input_tokens = None,
      u_cache_creation_input_tokens = None\<rparr>"

record message =
  m_usage :: "usage option"

text \<open>
  A streamed event after \<^verbatim>\<open>JSON.parse\<close>: the properties \<^verbatim>\<open>type\<close>,
  \<^verbatim>\<open>message\<close> and \<^verbatim>\<open>usage\<close> that the handler reads.
\<close>

record sse_event =
  ev_type :: "string option"
  ev_message :: "message option"
  ev_usage :: "usage option"

text \<open>
  The body of a buffered upstream response after \<^verbatim>\<open>upstream.json()\<close>: the
  properties \<^verbatim>\<open>model\<close> and \<^verbatim>\<open>usage\<close> that the relay reads, and the rest of the
  payload as an opaque text.
\<close>

record resp_data =
  dt_model :: "string option"
  dt_usage :: "usage option"
  dt_rest :: string

subsection \<open>The streamed usage extractor\<close>

text \<open>
  The body of the \<^verbatim>\<open>try\<close> block after a successful \<^verbatim>\<open>JSON.parse\<close>, on the
  counters \<^verbatim>\<open>(inputTok, outputTok)\<close>.
\<close>

definition on_event :: "sse_event \<Rightarrow> int \<times> int \<Rightarrow> int \<times> int" where
  "on_event evt c =
     (let c1 =
            (case (if ev_type evt = Some ''message_start''
                   then Option.bind (ev_message evt) m_usage else None) of
               Some u \<Rightarrow> (or_num (u_input_tokens u) 0, or_num (u_output_tokens u) 0)
             | None \<Rightarrow> c)
      in case (if ev_type evt = Some ''message_delta'' then ev_usage evt else None) of
           Some u \<Rightarrow> (fst c1, or_num (u_output_tokens u) (snd c1))
         | None \<Rightarrow> c1)"

text \<open>
  One line of a chunk. \<open>parse\<close> stands for \<^verbatim>\<open>JSON.parse\<close> followed by the reading
  of the event's properties; \<open>None\<close> is an exception (a syntax error, or the TypeError
  of reading \<^verbatim>\<open>evt.type\<close> when the fragment is \<^verbatim>\<open>null\<close>), which the
  \<^verbatim>\<open>catch\<close> swallows.
\<close>

definition on_line :: "(string \<Rightarrow> sse_event option) \<Rightarrow> string \<Rightarrow> int \<times> int \<Rightarrow> int \<times> int" where
  "on_line parse line c =
     (if startsWith line ''data: ''
      then (case parse (drop 6 line) of None \<Rightarrow> c | Some evt \<Rightarrow> on_event evt c)
      else c)"

text \<open>\<^verbatim>\<open>text.split('\n').forEach(...)\<close>: the lines of a chunk in order.\<close>

definition on_lines :: "(string \<Rightarrow> sse_event option) \<Rightarrow> string list \<Rightarrow> int \<times> int \<Rightarrow> int \<times> int" where
  "on_lines parse ls c = foldl (\<lambda>c line. on_line parse line c) c ls"

text \<open>
  The \<^verbatim>\<open>'data'\<close> handler on the state (counters, chunks written to the caller).
  A chunk is the text that \<^verbatim>\<open>chunk.toString()\<close> yields.
\<close>

definition on_data ::
  "(string \<Rightarrow> sse_event option) \<Rightarrow> string \<Rightarrow> (int \<times> int) \<times> string list \<Rightarrow>
   (int \<times> int) \<times> string list" where
  "on_data parse text s = (on_lines parse (split_nl text) (fst s), snd s @ [text])"

definition on_stream ::
  "(string \<Rightarrow> sse_event option) \<Rightarrow> string list \<Rightarrow> (int \<times> int) \<times> string list" where
  "on_stream parse chunks = foldl (\<lambda>s text. on_data parse text s) ((0, 0), []) chunks"

text \<open>
  The counters after a sequence of parsed events, from the initial
  \<^verbatim>\<open>inputTok = 0, outputTok = 0\<close>.
\<close>

definition on_events :: "sse_event list \<Rightarrow> int \<times> int" where
  "on_events evts = foldl (\<lambda>c evt. on_event evt c) (0, 0) evts"

subsection \<open>The routes \<^verbatim>\<open>/api/manual\<close> and \<^verbatim>\<open>/api/proxy\<close>\<close>

datatype resp_body =
    ErrorJson string
  | RecordJson usage_record
  | DataJson resp_data
  | EventStream "string list"

datatype response = Response (resp_status: nat) (resp_body: resp_body)

text \<open>
  What a route leaves behind: the response to the caller, the database, the record that
  \<^verbatim>\<open>logRequest\<close> returned (if it was called and returned), and the message of an
  exception that no handler caught.
\<close>

record outcome =
  resp :: response
  db :: ledger
  logged :: "usage_record option"
  uncaught :: "string option"

text \<open>
  The body of a manual entry. \<open>mb_input_tokens\<close> and \<open>mb_output_tokens\<close> are the values
  of \<^verbatim>\<open>parseInt(input_tokens)\<close> and \<^verbatim>\<open>parseInt(output_tokens)\<close>, \<open>None\<close> for NaN.
\<close>

record manual_body =
  mb_model :: "string option"
  mb_input_tokens :: "int option"
  mb_output_tokens :: "int option"

definition manual :: "log_env \<Rightarrow> manual_body \<Rightarrow> ledger \<Rightarrow> outcome" where
  "manual env b L =
     (if or_str (mb_model b) [] = []
      then \<lparr>resp = Response 400 (ErrorJson ''model is required''), db = L, logged = None,
            uncaught = None\<rparr>
      else
        (case logRequest env
                \<lparr>d_request_id = None, d_model = or_str (mb_model b) [],
                 d_input_tokens = Some (or_num (mb_input_tokens b) 0),
                 d_output_tokens = Some (or_num (mb_output_tokens b) 0),
                 d_cache_read_tokens = None, d_cache_write_tokens = None,
                 d_source = Some ''manual'', d_endpoint = None\<rparr> L of
           Inl msg \<Rightarrow>
             \<lparr>resp = Response 500 (ErrorJson msg), db = L, logged = None, uncaught = None\<rparr>
         | Inr (record, L') \<Rightarrow>
             \<lparr>resp = Response 200 (RecordJson record), db = L', logged = Some record,
              uncaught = None\<rparr>))"

text \<open>
  The caller's payload: the properties \<^verbatim>\<open>model\<close> and \<^verbatim>\<open>stream\<close> that the relay
  reads (\<open>b_stream\<close> holds when \<^verbatim>\<open>body.stream === true\<close>), a \<^verbatim>\<open>request_id\<close>
  that the caller may send, and the rest of the payload.
\<close>

record proxy_body =
  b_model :: "string option"
  b_stream :: bool
  b_request_id :: "string option"
  b_rest :: string

datatype stream_end = End | Error string

text \<open>
  The upstream response: its status, what \<^verbatim>\<open>upstream.json()\<close> gives when the relay
  buffers the body (\<open>Inl msg\<close>: it throws), and, when the relay streams it, the chunks
  that arrive followed by \<^verbatim>\<open>'end'\<close> or \<^verbatim>\<open>'error'\<close>.
\<close>

record upstream =
  up_status :: nat
  up_json :: "string + resp_data"
  up_chunks :: "string list"
  up_end :: stream_end

text \<open>\<^verbatim>\<open>upstream.ok\<close>: a status from 200 to 299.\<close>

definition ok :: "upstream \<Rightarrow> bool" where
  "ok up = (200 \<le> up_status up \<and> up_status up \<le> 299)"

datatype fetched = FetchThrows string | Fetched upstream

text \<open>
  What one call of the proxy route reads from its environment: the configured key, the
  identifier that \<^verbatim>\<open>crypto.randomUUID()\<close> returns for \<^verbatim>\<open>requestId\<close>, the result of
  \<^verbatim>\<open>fetch\<close>, \<^verbatim>\<open>JSON.parse\<close> on streamed fragments, and the environment of
  \<^verbatim>\<open>logRequest\<close>.
\<close>

record proxy_env =
  apiKey :: "string option"
  requestId :: string
  fetch :: fetched
  json_parse :: "string \<Rightarrow> sse_event option"
  log_e :: log_env

text \<open>The message sent when no key is configured; its dash is U+2014, three bytes in UTF-8.\<close>

definition no_key_message :: string where
  "no_key_message =
     ''ANTHROPIC_API_KEY not set in .env '' @ [CHR 0xE2, CHR 0x80, CHR 0x94] @
     '' the server cannot proxy without it.''"

definition proxy_error :: "string \<Rightarrow> ledger \<Rightarrow> outcome" where
  "proxy_error msg L =
     \<lparr>resp = Response 502 (ErrorJson (''Proxy error: '' @ msg)), db = L, logged = None,
      uncaught = None\<rparr>"

text \<open>
  Streaming mode. Nothing sets the status of the response, so it is Express's default
  200. An exception of \<^verbatim>\<open>logRequest\<close> inside the \<^verbatim>\<open>'end'\<close> handler is outside the
  route's \<^verbatim>\<open>try\<close> and stays uncaught.
\<close>

definition proxy_stream :: "proxy_env \<Rightarrow> string \<Rightarrow> upstream \<Rightarrow> ledger \<Rightarrow> outcome" where
  "proxy_stream env mdl up L =
     (let s = on_stream (json_parse env) (up_chunks up);
          inputTok = fst (fst s);
          outputTok = snd (fst s);
          r = Response 200 (EventStream (snd s))
      in case up_end up of
           Error msg \<Rightarrow> \<lparr>resp = r, db = L, logged = None, uncaught = None\<rparr>
         | End \<Rightarrow>
             if inputTok = 0 \<and> outputTok = 0
             then \<lparr>resp = r, db = L, logged = None, uncaught = None\<rparr>
             else
               (case logRequest (log_e env)
                       \<lparr>d_request_id = Some (requestId env), d_model = mdl,
                        d_input_tokens = Some inputTok, d_output_tokens = Some outputTok,
                        d_cache_read_tokens = None, d_cache_write_tokens = None,
                        d_source = Some ''proxy'', d_endpoint = None\<rparr> L of
                  Inl msg \<Rightarrow> \<lparr>resp = r, db = L, logged = None, uncaught = Some msg\<rparr>
                | Inr (record, L') \<Rightarrow>
                    \<lparr>resp = r, db = L', logged = Some record, uncaught = None\<rparr>))"

text \<open>Non-streaming mode.\<close>

definition proxy_buffered :: "proxy_env \<Rightarrow> string \<Rightarrow> upstream \<Rightarrow> ledger \<Rightarrow> outcome" where
  "proxy_buffered env mdl up L =
     (case up_json up of
        Inl msg \<Rightarrow> proxy_error msg L
      | Inr data \<Rightarrow>
          if ok up then
            (let usage = (case dt_usage data of None \<Rightarrow> empty_usage | Some u \<Rightarrow> u)
             in case logRequest (log_e env)
                       \<lparr>d_request_id = Some (requestId env),
                        d_model = or_str (dt_model data) mdl,
                        d_input_tokens = Some (or_num (u_input_tokens usage) 0),
                        d_output_tokens = Some (or_num (u_output_tokens usage) 0),
                        d_cache_read_tokens =
                          Some (or_num (u_cache_read_input_tokens usage) 0),
                        d_cache_write_tokens =
                          Some (or_num (u_cache_creation_input_tokens usage) 0),
                        d_source = Some ''proxy'', d_endpoint = None\<rparr> L of
                  Inl msg \<Rightarrow> proxy_error msg L
                | Inr (record, L') \<Rightarrow>
                    \<lparr>resp = Response (up_status up) (DataJson data), db = L',
                     logged = Some record, uncaught = None\<rparr>)
          else
            \<lparr>resp = Response (up_status up) (DataJson data), db = L, logged = None,
             uncaught = None\<rparr>)"

definition proxy :: "proxy_env \<Rightarrow> proxy_body \<Rightarrow> ledger \<Rightarrow> outcome" where
  "proxy env b L =
     (if or_str (apiKey env) [] = []
      then \<lparr>resp = Response 500 (ErrorJson no_key_message), db = L, logged = None,
            uncaught = None\<rparr>
      else
        (let mdl = or_str (b_model b) ''claude-sonnet-4-5''
         in case fetch env of
              FetchThrows msg \<Rightarrow> proxy_error msg L
            | Fetched up \<Rightarrow>
                if b_stream b then proxy_stream env mdl up L
                else proxy_buffered env mdl up L))"

text \<open>Requests that record usage, served one after the other.\<close>

datatype request = Manual log_env manual_body | Proxy proxy_env proxy_body

fun serve :: "request \<Rightarrow> ledger \<Rightarrow> outcome" where
  "serve (Manual env b) L = manual env b L"
| "serve (Proxy env b) L = proxy env b L"

fun serve_all :: "request list \<Rightarrow> ledger \<Rightarrow> ledger" where
  "serve_all [] L = L"
| "serve_all (q # qs) L = serve_all qs (db (serve q L))"

text \<open>A sequence of calls of \<^verbatim>\<open>logRequest\<close>; a call that throws leaves the database as it was.\<close>

fun log_all :: "(log_env \<times> log_data) list \<Rightarrow> ledger \<Rightarrow> ledger" where
  "log_all [] L = L"
| "log_all (c # cs) L =
     log_all cs (case logRequest (fst c) (snd c) L of Inl msg \<Rightarrow> L | Inr (record, L') \<Rightarrow> L')"

text \<open>
  What the spec's aggregate invariant compares with a row of \<^verbatim>\<open>daily_summary\<close>: the
  stored records whose \<^verbatim>\<open>date(created_at)\<close> is the given date, their number and
  the sum of their costs.
\<close>

definition created_on :: "string \<Rightarrow> ledger \<Rightarrow> usage_record list" where
  "created_on date L =
     map row_rec (filter (\<lambda>r. take 10 (created_at r) = date) (requests L))"

definition count_on :: "string \<Rightarrow> ledger \<Rightarrow> int" where
  "count_on date L = int (length (created_on date L))"

definition cost_on :: "string \<Rightarrow> ledger \<Rightarrow> rat" where
  "cost_on date L = sum_list (map cost_usd (created_on date L))"

text \<open>
  The aggregate invariant: for every date, the row of \<^verbatim>\<open>daily_summary\<close> holds the
  number and the cost sum of the records created that day, and a date without a row has
  no records.
\<close>

definition aggregate_consistent :: "ledger \<Rightarrow> bool" where
  "aggregate_consistent L =
     (\<forall>d. case daily_summary L d of
             None \<Rightarrow> count_on d L = 0 \<and> cost_on d L = 0
           | Some a \<Rightarrow> total_requests a = count_on d L \<and> total_cost a = cost_on d L)"

text \<open>The identifier under which a call of \<^verbatim>\<open>logRequest\<close> records.\<close>

definition call_id :: "log_env \<times> log_data \<Rightarrow> string" where
  "call_id c = or_str (d_request_id (snd c)) (uuid (fst c))"

subsection \<open>Sample inputs\<close>

text \<open>A call of \<^verbatim>\<open>logRequest\<close> on the first of January with a given request identifier.\<close>

definition env0 :: log_env where
  "env0 = \<lparr>uuid = ''generated-1'', js_now = ''2025-01-01T10:00:00.000Z'',
            db_now = ''2025-01-01 10:00:00'', db_error = None\<rparr>"

definition data0 :: log_data where
  "data0 = \<lparr>d_request_id = Some ''req-1'', d_model = ''claude-sonnet-4-5'',
             d_input_tokens = Some 1000000, d_output_tokens = Some 0,
             d_cache_read_tokens = None, d_cache_write_tokens = None,
             d_source = None, d_endpoint = None\<rparr>"

text \<open>
  The provider's events: \<^verbatim>\<open>message_start\<close> with the usage of its message, and
  \<^verbatim>\<open>message_delta\<close> with a usage that carries the output count.
\<close>

definition start_event :: "int \<Rightarrow> int \<Rightarrow> sse_event" where
  "start_event i out =
     \<lparr>ev_type = Some ''message_start'',
      ev_message = Some \<lparr>m_usage = Some (empty_usage
        \<lparr>u_input_tokens := Some i, u_output_tokens := Some out\<rparr>)\<rparr>,
      ev_usage = None\<rparr>"

definition delta_event :: "int \<Rightarrow> sse_event" where
  "delta_event out =
     \<lparr>ev_type = Some ''message_delta'', ev_message = None,
      ev_usage = Some (empty_usage\<lparr>u_output_tokens := Some out\<rparr>)\<rparr>"

text \<open>
  Three payloads of streamed events, a \<^verbatim>\<open>JSON.parse\<close> that knows them and throws on
  every other text, and the framing of one server-sent event.
\<close>

definition start_json :: string where
  \<open>start_json =
     ''{"type":"message_start","message":{"usage":{"input_tokens":100,"output_tokens":0}}}''\<close>

definition delta50_json :: string where
  \<open>delta50_json = ''{"type":"message_delta","usage":{"output_tokens":50}}''\<close>

definition delta120_json :: string where
  \<open>delta120_json = ''{"type":"message_delta","usage":{"output_tokens":120}}''\<close>

definition parse_sample :: "string \<Rightarrow> sse_event option" where
  "parse_sample s =
     (if s = start_json then Some (start_event 100 0)
      else if s = delta50_json then Some (delta_event 50)
      else if s = delta120_json then Some (delta_event 120)
      else None)"

definition sse :: "string \<Rightarrow> string \<Rightarrow> string" where
  "sse name payload =
     ''event: '' @ name @ [CHR 0x0A] @ ''data: '' @ payload @ [CHR 0x0A, CHR 0x0A]"

text \<open>
  A stream of three chunks; the second carries two deltas with a malformed fragment
  between them.
\<close>

definition chunks0 :: "string list" where
  "chunks0 =
     [sse ''message_start'' start_json,
      sse ''message_delta'' delta50_json @ sse ''ping'' ''{oops'' @
        sse ''message_delta'' delta120_json,
      sse ''message_stop'' ''[DONE]'']"

text \<open>The body of a rejected call, as one chunk.\<close>

definition error_json :: string where
  \<open>error_json =
     ''{"type":"error","error":{"type":"authentication_error","message":"invalid x-api-key"}}''\<close>

text \<open>A buffered response body with usage, and upstream responses with a given status.\<close>

definition data_ok :: resp_data where
  "data_ok =
     \<lparr>dt_model = Some ''claude-sonnet-4-5-20250929'',
      dt_usage = Some \<lparr>u_input_tokens = Some 1000, u_output_tokens = Some 200,
                       u_cache_read_input_tokens = Some 30,
                       u_cache_creation_input_tokens = Some 40\<rparr>,
      dt_rest = ''content''\<rparr>"

definition up_buffered :: "nat \<Rightarrow> upstream" where
  "up_buffered st = \<lparr>up_status = st, up_json = Inr data_ok, up_chunks = [], up_end = End\<rparr>"

definition up_streamed :: "nat \<Rightarrow> string list \<Rightarrow> upstream" where
  "up_streamed st chunks =
     \<lparr>up_status = st, up_json = Inl ''invalid json'', up_chunks = chunks, up_end = End\<rparr>"

text \<open>
  A call of the proxy route with a configured key, and a payload in which the caller
  sends a \<^verbatim>\<open>request_id\<close> of its own.
\<close>

definition penv0 :: "fetched \<Rightarrow> proxy_env" where
  "penv0 f =
     \<lparr>apiKey = Some ''sk-test'', requestId = ''generated-uuid'', fetch = f,
      json_parse = parse_sample, log_e = env0\<rparr>"

definition body0 :: "bool \<Rightarrow> proxy_body" where
  "body0 stream =
     \<lparr>b_model = Some ''claude-sonnet-4-5'', b_stream = stream,
      b_request_id = Some ''client-req-1'', b_rest = ''messages''\<rparr>"

text \<open>
  Manual entries: one with 1200 input tokens and an output field that \<^verbatim>\<open>parseInt\<close>
  reads as NaN, one whose input field reads as \<open>-5\<close>.
\<close>

definition mb0 :: manual_body where
  "mb0 = \<lparr>mb_model = Some ''claude-sonnet-4-5'', mb_input_tokens = Some 1200,
           mb_output_tokens = None\<rparr>"

definition mb_neg :: manual_body where
  "mb_neg = \<lparr>mb_model = Some ''claude-sonnet-4-5'', mb_input_tokens = Some (- 5),
              mb_output_tokens = None\<rparr>"

subsection \<open>Unfolding rules\<close>

lemmas js_defs = or_str_def or_num_def startsWith_def Let_def
lemmas ledger_defs = logRequest_def insertRequest_def updateDaily_def
lemmas relay_defs = proxy_def proxy_stream_def proxy_buffered_def proxy_error_def ok_def
lemmas stream_defs = on_stream_def on_data_def on_lines_def on_line_def on_event_def
lemmas sample_defs = env0_def data0_def empty_ledger_def penv0_def body0_def up_buffered_def
  up_streamed_def data_ok_def empty_usage_def start_event_def delta_event_def mb0_def
  mb_neg_def
lemmas text_defs = chunks0_def sse_def parse_sample_def start_json_def delta50_json_def
  delta120_json_def error_json_def

subsection \<open>Facts about pricing\<close>

lemma PRICES_key_defined: "\<exists>p. map_of PRICES (price_key mdl) = Some p"
proof (cases "find_key mdl")
  case None
  then show ?thesis by (simp add: price_key_def PRICES_def)
next
  case (Some k)
  then have "k \<in> set (map fst PRICES)"
    unfolding find_key_def by (auto simp: find_Some_iff)
  then have "k \<in> dom (map_of PRICES)" by (simp add: dom_map_of_conv_image_fst)
  with Some show ?thesis by (auto simp: price_key_def)
qed

lemma calcCost_sonnet_million: "calcCost ''claude-sonnet-4-5'' 1000000 0 = 3"
  by (simp add: calcCost_def price_key_def find_key_def PRICES_def startsWith_def)

lemma PRICES_nonneg: "map_of PRICES k = Some p \<Longrightarrow> 0 \<le> p_in p \<and> 0 \<le> p_out p"
  by (auto simp: PRICES_def split: if_splits)

lemma calcCost_nonneg:
  assumes "0 \<le> i" and "0 \<le> out"
  shows "0 \<le> calcCost mdl i out"
proof -
  obtain p where p: "map_of PRICES (price_key mdl) = Some p"
    using PRICES_key_defined by blast
  from PRICES_nonneg [OF p] assms show ?thesis
    by (simp add: calcCost_def p)
qed

lemma calcCost_sonnet:
  "calcCost ''claude-sonnet-4-5'' i out = (of_int i * 3 + of_int out * 15) / 1000000"
  by (simp add: calcCost_def price_key_def find_key_def PRICES_def startsWith_def)

lemma calcCost_sonnet_dated:
  "calcCost ''claude-sonnet-4-5-20250929'' i out = (of_int i * 3 + of_int out * 15) / 1000000"
  by (simp add: calcCost_def price_key_def find_key_def PRICES_def startsWith_def)

text \<open>
  C6. \<^verbatim>\<open>calcCost\<close> is \<open>(inputTok * in + outputTok * out) / 1000000\<close> with the prices
  of the first table entry whose key is a prefix of the model or has the model as a
  prefix, and with the prices 3 and 15 of the entry \<^verbatim>\<open>claude-sonnet-4-5\<close> when no
  entry matches. One million input tokens of \<^verbatim>\<open>claude-sonnet-4-5\<close> cost exactly its
  input price 3; a model that the table does not know (\<^verbatim>\<open>gpt-4\<close>) is priced with
  the default entry and does not fail.
\<close>

theorem calcCost_deterministic:
  "calcCost mdl i out =
     (case List.find (\<lambda>(k, p). startsWith mdl k \<or> startsWith k mdl) PRICES of
        Some (k, p) \<Rightarrow> (of_int i * p_in p + of_int out * p_out p) / 1000000
      | None \<Rightarrow> (of_int i * 3 + of_int out * 15) / 1000000)
   \<and> map_of PRICES ''claude-sonnet-4-5'' = Some \<lparr>p_in = 3, p_out = 15\<rparr>
   \<and> calcCost ''claude-sonnet-4-5'' 1000000 0 = 3
   \<and> List.find (\<lambda>(k, p). startsWith ''gpt-4'' k \<or> startsWith k ''gpt-4'') PRICES = None
   \<and> calcCost ''gpt-4'' 1000 1000 = (1000 * 3 + 1000 * 15) / 1000000"
  by (simp add: calcCost_def price_key_def find_key_def PRICES_def startsWith_def)

subsection \<open>Facts about the ledger\<close>

text \<open>
  C1. Recording the same \<^verbatim>\<open>request_id\<close> twice: \<^verbatim>\<open>INSERT OR IGNORE\<close> keeps the
  single stored row, but \<^verbatim>\<open>updateDaily\<close> runs in the same transaction whether or not
  a row was inserted, so the day's totals are increased a second time (2 requests, cost
  6 and 2000000 input tokens for one stored record of cost 3 and 1000000 input tokens).
\<close>

theorem logRequest_duplicate_increments_daily_again:
  "(case logRequest env0 data0 empty_ledger of
      Inl msg \<Rightarrow> False
    | Inr (r1, L1) \<Rightarrow>
        (case logRequest env0 data0 L1 of
           Inl msg \<Rightarrow> False
         | Inr (r2, L2) \<Rightarrow>
             map (\<lambda>r. request_id (row_rec r)) (requests L1) = [''req-1''] \<and>
             requests L2 = requests L1 \<and>
             daily_summary L1 ''2025-01-01'' =
               Some \<lparr>total_cost = 3, total_requests = 1, total_input_tokens = 1000000,
                     total_output_tokens = 0, updated_at = ''2025-01-01 10:00:00''\<rparr> \<and>
             daily_summary L2 ''2025-01-01'' =
               Some \<lparr>total_cost = 6, total_requests = 2, total_input_tokens = 2000000,
                     total_output_tokens = 0, updated_at = ''2025-01-01 10:00:00''\<rparr>))"
  by (simp add: logRequest_def env0_def data0_def empty_ledger_def insertRequest_def
      updateDaily_def or_str_def or_num_def calcCost_sonnet_million Let_def)

text \<open>
  C2. After two insertions with the same \<^verbatim>\<open>request_id\<close> into the empty ledger, the
  row of \<^verbatim>\<open>daily_summary\<close> for the day has \<^verbatim>\<open>total_requests\<close> 2 and
  \<^verbatim>\<open>total_cost\<close> 6, while one record of cost 3 is stored for that day.
\<close>

theorem daily_summary_exceeds_stored_records:
  "(let L = log_all [(env0, data0), (env0, data0)] empty_ledger
    in map_option total_requests (daily_summary L ''2025-01-01'') = Some 2 \<and>
       count_on ''2025-01-01'' L = 1 \<and>
       map_option total_cost (daily_summary L ''2025-01-01'') = Some 6 \<and>
       cost_on ''2025-01-01'' L = 3)"
  by (simp add: logRequest_def env0_def data0_def empty_ledger_def insertRequest_def
      updateDaily_def or_str_def or_num_def calcCost_sonnet_million count_on_def
      cost_on_def created_on_def Let_def)

text \<open>
  The defect behind C1 and C2 in general: whenever the identifier is already stored and
  the transaction commits, the rows stay as they are and the day's request count goes up
  by one all the same.
\<close>

lemma logRequest_duplicate:
  assumes "or_str (d_request_id data) (uuid env)
             \<in> set (map (\<lambda>r. request_id (row_rec r)) (requests L))"
    and "db_error env = None"
  shows "\<exists>r L'. logRequest env data L = Inr (r, L') \<and> requests L' = requests L \<and>
           map_option total_requests (daily_summary L' (take 10 (js_now env))) =
             Some (case daily_summary L (take 10 (js_now env)) of
                     None \<Rightarrow> 1 | Some d \<Rightarrow> total_requests d + 1)"
  using assms
  by (auto simp: logRequest_def Let_def insertRequest_def updateDaily_def split: option.splits)

text \<open>
  Without a repeated identifier the aggregate invariant holds: a call with a fresh
  identifier preserves it, provided the two clocks that the call reads (JavaScript's for
  the key of \<^verbatim>\<open>daily_summary\<close>, SQLite's for \<^verbatim>\<open>created_at\<close>) agree on the date;
  hence it holds after any sequence of calls with pairwise distinct identifiers on the
  empty ledger.
\<close>

lemma logRequest_fresh_aggregate:
  assumes inv: "aggregate_consistent L"
    and fresh: "or_str (d_request_id data) (uuid env)
             \<notin> set (map (\<lambda>r. request_id (row_rec r)) (requests L))"
    and clock: "take 10 (db_now env) = take 10 (js_now env)"
    and log: "logRequest env data L = Inr (r, L')"
  shows "aggregate_consistent L'"
proof -
  let ?today = "take 10 (js_now env)"
  let ?row = "\<lparr>row_id = Suc (seq L), row_rec = r, created_at = db_now env\<rparr>"
  from log fresh have rows: "requests L' = requests L @ [?row]"
    by (auto simp: logRequest_def Let_def insertRequest_def updateDaily_def
        split: option.splits if_splits)
  from log have daily: "daily_summary L' =
      (daily_summary L)(?today \<mapsto>
        (case daily_summary L ?today of
           None \<Rightarrow> \<lparr>total_cost = cost_usd r, total_requests = 1,
                    total_input_tokens = input_tokens r,
                    total_output_tokens = output_tokens r, updated_at = db_now env\<rparr>
         | Some a \<Rightarrow> \<lparr>total_cost = total_cost a + cost_usd r,
                    total_requests = total_requests a + 1,
                    total_input_tokens = total_input_tokens a + input_tokens r,
                    total_output_tokens = total_output_tokens a + output_tokens r,
                    updated_at = db_now env\<rparr>))"
    by (auto simp: logRequest_def Let_def insertRequest_def updateDaily_def
        split: option.splits if_splits)
  have cnt: "count_on x L' = count_on x L + (if ?today = x then 1 else 0)" for x
    using rows clock by (simp add: count_on_def created_on_def)
  have cst: "cost_on x L' = cost_on x L + (if ?today = x then cost_usd r else 0)" for x
    using rows clock by (simp add: cost_on_def created_on_def)
  have "case daily_summary L' d of
            None \<Rightarrow> count_on d L' = 0 \<and> cost_on d L' = 0
          | Some a \<Rightarrow> total_requests a = count_on d L' \<and> total_cost a = cost_on d L'" for d
  proof -
    from inv have old: "case daily_summary L d of
            None \<Rightarrow> count_on d L = 0 \<and> cost_on d L = 0
          | Some a \<Rightarrow> total_requests a = count_on d L \<and> total_cost a = cost_on d L"
      by (simp add: aggregate_consistent_def)
    show ?thesis
    proof (cases "d = ?today")
      case True
      with old show ?thesis
        by (simp add: daily cnt cst split: option.splits)
    next
      case False
      with old show ?thesis
        by (auto simp add: daily cnt cst split: option.splits)
    qed
  qed
  then show ?thesis by (simp add: aggregate_consistent_def)
qed

lemma logRequest_ids:
  assumes "logRequest env data L = Inr (r, L')"
  shows "set (map (\<lambda>r. request_id (row_rec r)) (requests L')) =
         insert (call_id (env, data)) (set (map (\<lambda>r. request_id (row_rec r)) (requests L)))"
  using assms
  by (auto simp: logRequest_def Let_def insertRequest_def updateDaily_def call_id_def
      split: option.splits if_splits)

lemma log_all_fresh_aggregate:
  assumes "aggregate_consistent L"
    and "distinct (map call_id cs)"
    and "set (map call_id cs) \<inter> set (map (\<lambda>r. request_id (row_rec r)) (requests L)) = {}"
    and "\<forall>c \<in> set cs. take 10 (db_now (fst c)) = take 10 (js_now (fst c))"
  shows "aggregate_consistent (log_all cs L)"
  using assms
proof (induction cs arbitrary: L)
  case Nil
  then show ?case by simp
next
  case (Cons c cs)
  show ?case
  proof (cases "logRequest (fst c) (snd c) L")
    case (Inl msg)
    with Cons.prems have "aggregate_consistent (log_all cs L)"
      by (intro Cons.IH) auto
    with Inl show ?thesis by simp
  next
    case (Inr p)
    obtain r L' where p: "p = (r, L')" by (cases p)
    with Inr have l: "logRequest (fst c) (snd c) L = Inr (r, L')" by simp
    from Cons.prems(3) have fresh: "or_str (d_request_id (snd c)) (uuid (fst c))
        \<notin> set (map (\<lambda>r. request_id (row_rec r)) (requests L))"
      by (auto simp: call_id_def)
    from Cons.prems(4) have clock: "take 10 (db_now (fst c)) = take 10 (js_now (fst c))"
      by simp
    have inv': "aggregate_consistent L'"
      using logRequest_fresh_aggregate [OF Cons.prems(1) fresh clock l] .
    have ids: "set (map (\<lambda>r. request_id (row_rec r)) (requests L')) =
         insert (call_id c) (set (map (\<lambda>r. request_id (row_rec r)) (requests L)))"
      using logRequest_ids [OF l] by simp
    have "aggregate_consistent (log_all cs L')"
    proof (rule Cons.IH [OF inv'])
      show "distinct (map call_id cs)" using Cons.prems(2) by simp
      show "set (map call_id cs) \<inter> set (map (\<lambda>r. request_id (row_rec r)) (requests L')) = {}"
        using Cons.prems(2,3) unfolding ids by auto
      show "\<forall>c \<in> set cs. take 10 (db_now (fst c)) = take 10 (js_now (fst c))"
        using Cons.prems(4) by simp
    qed
    with l show ?thesis by simp
  qed
qed

lemma aggregate_consistent_empty: "aggregate_consistent empty_ledger"
  by (simp add: aggregate_consistent_def empty_ledger_def count_on_def cost_on_def
      created_on_def)

lemma log_all_distinct_ids_consistent:
  assumes "distinct (map call_id cs)"
    and "\<forall>c \<in> set cs. take 10 (db_now (fst c)) = take 10 (js_now (fst c))"
  shows "aggregate_consistent (log_all cs empty_ledger)"
  using log_all_fresh_aggregate [OF aggregate_consistent_empty assms(1) _ assms(2)]
  by (simp add: empty_ledger_def)


lemma logRequest_rows:
  "logRequest env data L = Inr (r, L') \<Longrightarrow>
   requests L' = requests L \<or>
   requests L' =
     requests L @ [\<lparr>row_id = Suc (seq L), row_rec = r, created_at = db_now env\<rparr>]"
  by (auto simp: logRequest_def Let_def insertRequest_def updateDaily_def
      split: option.splits if_splits)

lemma logRequest_cache:
  "logRequest env data L = Inr (r, L') \<Longrightarrow>
   cache_read_tokens r = or_num (d_cache_read_tokens data) 0 \<and>
   cache_write_tokens r = or_num (d_cache_write_tokens data) 0"
  by (auto simp: logRequest_def Let_def split: option.splits)

lemma logRequest_request_id:
  "logRequest e data L = Inr (r, L') \<Longrightarrow>
     request_id r = or_str (d_request_id data) (uuid e) \<and>
     request_id r \<in> set (map (\<lambda>row. request_id (row_rec row)) (requests L'))"
  by (auto simp: logRequest_def Let_def insertRequest_def updateDaily_def
      split: option.splits if_splits)

lemma logRequest_cost:
  "logRequest e data L = Inr (r, L') \<Longrightarrow>
   cost_usd r = calcCost (model r) (input_tokens r) (output_tokens r)"
  by (auto simp: logRequest_def Let_def split: option.splits)

lemma logRequest_tokens:
  "logRequest e data L = Inr (r, L') \<Longrightarrow>
   input_tokens r = (case d_input_tokens data of None \<Rightarrow> 0 | Some n \<Rightarrow> n) \<and>
   output_tokens r = (case d_output_tokens data of None \<Rightarrow> 0 | Some n \<Rightarrow> n) \<and>
   cache_read_tokens r = (case d_cache_read_tokens data of None \<Rightarrow> 0 | Some n \<Rightarrow> n) \<and>
   cache_write_tokens r = (case d_cache_write_tokens data of None \<Rightarrow> 0 | Some n \<Rightarrow> n)"
  by (auto simp: logRequest_def Let_def or_num_def split: option.splits)

subsection \<open>Facts about the streamed usage extractor\<close>

lemma on_line_malformed: "prs (drop 6 line) = None \<Longrightarrow> on_line prs line c = c"
  by (simp add: on_line_def)

lemma on_lines_append: "on_lines prs (xs @ ys) c = on_lines prs ys (on_lines prs xs c)"
  by (simp add: on_lines_def)

lemma on_lines_Cons: "on_lines prs (x # xs) c = on_lines prs xs (on_line prs x c)"
  by (simp add: on_lines_def)

lemma on_lines_all_malformed:
  "\<forall>line \<in> set ls. prs (drop 6 line) = None \<Longrightarrow> on_lines prs ls c = c"
  by (induction ls arbitrary: c) (simp_all add: on_lines_def on_line_malformed)

lemma fold_data_written:
  "snd (foldl (\<lambda>s text. on_data prs text s) s0 chunks) = snd s0 @ chunks"
  by (induction chunks arbitrary: s0) (simp_all add: on_data_def)

lemma fold_data_counters:
  "fst (foldl (\<lambda>s text. on_data prs text s) s0 chunks) =
   foldl (\<lambda>c text. on_lines prs (split_nl text) c) (fst s0) chunks"
  by (induction chunks arbitrary: s0) (simp_all add: on_data_def)

lemma fst_on_data: "fst (on_data prs text s) = on_lines prs (split_nl text) (fst s)"
  by (simp add: on_data_def)

lemma on_stream_written: "snd (on_stream prs chunks) = chunks"
  by (simp add: on_stream_def fold_data_written)

lemma proxy_stream_resp:
  "resp (proxy_stream env mdl up L) = Response 200 (EventStream (up_chunks up))"
  by (simp add: proxy_stream_def Let_def on_stream_written
      split: stream_end.splits sum.splits prod.splits)

lemma on_stream_skip_chunk:
  assumes "\<forall>line \<in> set (split_nl chunk). prs (drop 6 line) = None"
  shows "fst (on_stream prs (cs1 @ chunk # cs2)) = fst (on_stream prs (cs1 @ cs2))"
  using assms
  by (simp add: on_stream_def fold_data_counters fst_on_data on_lines_all_malformed)

lemma proxy_stream_skip_chunk:
  assumes "\<forall>line \<in> set (split_nl chunk). json_parse env (drop 6 line) = None"
  shows "logged (proxy_stream env mdl (up\<lparr>up_chunks := cs1 @ chunk # cs2\<rparr>) L) =
         logged (proxy_stream env mdl (up\<lparr>up_chunks := cs1 @ cs2\<rparr>) L) \<and>
         db (proxy_stream env mdl (up\<lparr>up_chunks := cs1 @ chunk # cs2\<rparr>) L) =
         db (proxy_stream env mdl (up\<lparr>up_chunks := cs1 @ cs2\<rparr>) L)"
  using on_stream_skip_chunk [OF assms, of cs1 cs2]
  by (simp add: proxy_stream_def Let_def split: stream_end.splits sum.splits prod.splits)

lemma on_lines_data_events:
  assumes "list_all2 (\<lambda>p e. prs p = Some e) ps evts"
  shows "on_lines prs (map (\<lambda>p. ''data: '' @ p) ps) c = foldl (\<lambda>c evt. on_event evt c) c evts"
  using assms
proof (induction ps evts arbitrary: c rule: list_all2_induct)
  case Nil
  then show ?case by (simp add: on_lines_def)
next
  case (Cons p ps e evts)
  then show ?case
    by (simp add: on_lines_Cons on_line_def startsWith_def)
qed

text \<open>
  C5, as the claim states it, fails: a \<^verbatim>\<open>message_delta\<close> whose output count is 0
  does not overwrite the running counter, because \<^verbatim>\<open>evt.usage.output_tokens || outputTok\<close>
  falls back to the old value. After \<^verbatim>\<open>message_start{in:100,out:7}\<close> and
  \<^verbatim>\<open>message_delta{out:0}\<close> the output counter is 7, not 0.
\<close>

theorem message_delta_zero_keeps_counter:
  "on_events [start_event 100 7, delta_event 0] = (100, 7)
   \<and> snd (on_events [start_event 100 7, delta_event 0]) \<noteq> 0"
  by (simp add: on_events_def on_event_def start_event_def delta_event_def empty_usage_def
      or_num_def)

text \<open>
  C5, amended. A \<^verbatim>\<open>message_start\<close> event whose message carries usage sets both
  counters (a missing field counts as 0). A \<^verbatim>\<open>message_delta\<close> event whose usage
  carries a non-zero output count overwrites the output counter and keeps the input
  counter; with an output count that is 0 or missing it leaves both counters as they
  were. The events \<^verbatim>\<open>[message_start{in:100,out:0}, message_delta{out:50},
  message_delta{out:120}]\<close> give the counters \<open>(100, 120)\<close>. The handler computes
  these counters on the \<^verbatim>\<open>data: \<close> lines whose payloads parse to the events.
\<close>

theorem streamed_usage_accumulation:
  "(ev_type e = Some ''message_start'' \<and> ev_message e = Some m \<and> m_usage m = Some u
      \<longrightarrow> on_event e c = (or_num (u_input_tokens u) 0, or_num (u_output_tokens u) 0))
   \<and> (ev_type e = Some ''message_delta'' \<and> ev_usage e = Some u' \<and>
        u_output_tokens u' = Some n \<and> n \<noteq> 0
      \<longrightarrow> on_event e c = (fst c, n))
   \<and> (ev_type e = Some ''message_delta'' \<and> ev_usage e = Some u' \<and>
        or_num (u_output_tokens u') 0 = 0
      \<longrightarrow> on_event e c = c)
   \<and> on_events [start_event 100 0, delta_event 50, delta_event 120] = (100, 120)
   \<and> (list_all2 (\<lambda>p e. prs p = Some e) ps evts
      \<longrightarrow> on_lines prs (map (\<lambda>p. ''data: '' @ p) ps) (0, 0) = on_events evts)"
  using on_lines_data_events [of prs ps evts "(0, 0)"]
  by (auto simp: on_events_def on_event_def start_event_def delta_event_def
      empty_usage_def or_num_def split: option.splits)

text \<open>
  Witness for C5: the three kinds of step on the sample events, and the three sample
  payloads as lines of a stream.
\<close>

theorem streamed_usage_accumulation_witness:
  "on_event (start_event 100 0) (5, 9) = (100, 0)
   \<and> on_event (delta_event 50) (100, 0) = (100, 50)
   \<and> on_event (delta_event 0) (100, 7) = (100, 7)
   \<and> on_lines parse_sample
        [''data: '' @ start_json, ''data: '' @ delta50_json, ''data: '' @ delta120_json]
        (0, 0) = (100, 120)"
  using streamed_usage_accumulation [of "start_event 100 0"
        "\<lparr>m_usage = Some (empty_usage
            \<lparr>u_input_tokens := Some 100, u_output_tokens := Some 0\<rparr>)\<rparr>"
        "empty_usage\<lparr>u_input_tokens := Some 100, u_output_tokens := Some 0\<rparr>" "(5, 9)"]
    streamed_usage_accumulation [of "delta_event 50" _ _ "(100, 0)"
        "empty_usage\<lparr>u_output_tokens := Some 50\<rparr>" 50]
    streamed_usage_accumulation [of "delta_event 0" _ _ "(100, 7)"
        "empty_usage\<lparr>u_output_tokens := Some 0\<rparr>" _ parse_sample
        "[start_json, delta50_json, delta120_json]"
        "[start_event 100 0, delta_event 50, delta_event 120]"]
  by (simp add: start_event_def delta_event_def empty_usage_def or_num_def
      parse_sample_def start_json_def delta50_json_def delta120_json_def)


text \<open>
  C9. A fragment on which \<^verbatim>\<open>JSON.parse\<close> throws leaves the counters as they were,
  so the lines after it are processed as if it were not there; every chunk is written to
  the caller whatever it contains, and the streamed response is all the chunks in order;
  a chunk whose fragments are all malformed is forwarded, and so are the chunks after
  it, while the counters are those of the other chunks, and what is logged and stored at
  the end of the stream is what would be without that chunk.
\<close>

theorem malformed_fragment_skipped:
  assumes "prs (drop 6 bad) = None"
  shows "on_line prs bad c = c
    \<and> on_lines prs (ls1 @ bad # ls2) c = on_lines prs (ls1 @ ls2) c
    \<and> snd (on_stream prs chunks) = chunks
    \<and> resp (proxy_stream env mdl up L) = Response 200 (EventStream (up_chunks up))
    \<and> ((\<forall>line \<in> set (split_nl chunk). prs (drop 6 line) = None) \<longrightarrow>
         on_stream prs (cs1 @ chunk # cs2) =
           (fst (on_stream prs (cs1 @ cs2)), cs1 @ chunk # cs2))
    \<and> ((\<forall>line \<in> set (split_nl chunk). json_parse env (drop 6 line) = None) \<longrightarrow>
         logged (proxy_stream env mdl (up\<lparr>up_chunks := cs1 @ chunk # cs2\<rparr>) L) =
         logged (proxy_stream env mdl (up\<lparr>up_chunks := cs1 @ cs2\<rparr>) L) \<and>
         db (proxy_stream env mdl (up\<lparr>up_chunks := cs1 @ chunk # cs2\<rparr>) L) =
         db (proxy_stream env mdl (up\<lparr>up_chunks := cs1 @ cs2\<rparr>) L))"
proof -
  have 1: "on_line prs bad c = c" for c
    using assms by (rule on_line_malformed)
  have 2: "on_lines prs (ls1 @ bad # ls2) c = on_lines prs (ls1 @ ls2) c"
    by (simp add: on_lines_append on_lines_Cons 1)
  have 3: "on_stream prs (cs1 @ chunk # cs2) =
           (fst (on_stream prs (cs1 @ cs2)), cs1 @ chunk # cs2)"
    if "\<forall>line \<in> set (split_nl chunk). prs (drop 6 line) = None"
  proof (rule prod_eqI)
    show "fst (on_stream prs (cs1 @ chunk # cs2)) =
          fst (fst (on_stream prs (cs1 @ cs2)), cs1 @ chunk # cs2)"
      using on_stream_skip_chunk [OF that] by simp
    show "snd (on_stream prs (cs1 @ chunk # cs2)) =
          snd (fst (on_stream prs (cs1 @ cs2)), cs1 @ chunk # cs2)"
      by (simp add: on_stream_written)
  qed
  show ?thesis
    using 1 2 3 proxy_stream_skip_chunk
    by (simp add: on_stream_written proxy_stream_resp)
qed

text \<open>
  Witness for C9: the sample stream has a malformed fragment between its two deltas; all
  three chunks are written and the counters end at \<open>(100, 120)\<close>.
\<close>

theorem malformed_fragment_skipped_witness:
  "parse_sample (drop 6 ''data: {oops'') = None
   \<and> on_line parse_sample ''data: {oops'' (100, 50) = (100, 50)
   \<and> on_stream parse_sample chunks0 = ((100, 120), chunks0)"
  using malformed_fragment_skipped [of parse_sample "''data: {oops''" "(100, 50)"]
  by (simp add: stream_defs text_defs js_defs start_event_def delta_event_def
      empty_usage_def)

subsection \<open>Facts about the relay\<close>

lemma proxy_stream_logged:
  assumes "logged (proxy_stream env mdl up L) = Some r"
  shows "\<exists>data. logRequest (log_e env) data L = Inr (r, db (proxy_stream env mdl up L)) \<and>
           d_cache_read_tokens data = None \<and> d_cache_write_tokens data = None \<and>
           d_request_id data = Some (requestId env)"
  using assms
  by (auto simp: proxy_stream_def Let_def split: stream_end.splits if_splits sum.splits)

lemma proxy_streaming_logged:
  assumes "b_stream b" and "logged (proxy env b L) = Some r"
  shows "\<exists>up. fetch env = Fetched up \<and>
           proxy env b L = proxy_stream env (or_str (b_model b) ''claude-sonnet-4-5'') up L"
  using assms
  by (auto simp: proxy_def proxy_error_def Let_def split: if_splits fetched.splits)

lemma proxy_logged:
  assumes "logged (proxy env b L) = Some r"
  shows "\<exists>data. logRequest (log_e env) data L = Inr (r, db (proxy env b L)) \<and>
           d_request_id data = Some (requestId env)"
  using assms
  by (auto simp: proxy_def proxy_error_def proxy_stream_def proxy_buffered_def Let_def
      split: if_splits fetched.splits stream_end.splits sum.splits)

lemma manual_logged:
  assumes "logged (manual e mb L) = Some r"
  shows "logRequest e
           \<lparr>d_request_id = None, d_model = or_str (mb_model mb) [],
            d_input_tokens = Some (or_num (mb_input_tokens mb) 0),
            d_output_tokens = Some (or_num (mb_output_tokens mb) 0),
            d_cache_read_tokens = None, d_cache_write_tokens = None,
            d_source = Some ''manual'', d_endpoint = None\<rparr> L
         = Inr (r, db (manual e mb L))"
  using assms
  by (auto simp: manual_def split: if_splits sum.splits)

text \<open>
  In non-streaming mode a response that is not \<^verbatim>\<open>ok\<close> is returned with its status
  and payload, and nothing is logged.
\<close>

lemma proxy_buffered_rejected:
  assumes "or_str (apiKey env) [] \<noteq> []" and "\<not> b_stream b" and "fetch env = Fetched up"
    and "\<not> ok up" and "up_json up = Inr data"
  shows "proxy env b L =
     \<lparr>resp = Response (up_status up) (DataJson data), db = L, logged = None,
      uncaught = None\<rparr>"
  using assms by (simp add: proxy_def proxy_buffered_def Let_def)

text \<open>
  C3, as the claim states it, fails: in non-streaming mode \<^verbatim>\<open>logRequest\<close> runs
  inside the route's \<^verbatim>\<open>try\<close> before the response is sent, so when the database
  write throws, the caller gets status 502 with a \<^verbatim>\<open>Proxy error\<close> body in place of
  the upstream's 200 and payload.
\<close>

theorem proxy_buffered_log_failure_gives_502:
  "resp (proxy ((penv0 (Fetched (up_buffered 200)))
                  \<lparr>log_e := env0\<lparr>db_error := Some ''disk full''\<rparr>\<rparr>)
          (body0 False) empty_ledger)
   = Response 502 (ErrorJson ''Proxy error: disk full'')"
  by (simp add: relay_defs ledger_defs js_defs sample_defs)

text \<open>
  C3, amended. For a successful non-streamed upstream response whose body parses, the
  relay answers with the upstream's status and the parsed payload when the ledger write
  succeeds; when the ledger write throws, it answers 502 with the message of the error.
\<close>

theorem proxy_buffered_passthrough:
  assumes "or_str (apiKey env) [] \<noteq> []" and "\<not> b_stream b" and "fetch env = Fetched up"
    and "ok up" and "up_json up = Inr data"
  shows "resp (proxy env b L) =
     (case db_error (log_e env) of
        None \<Rightarrow> Response (up_status up) (DataJson data)
      | Some msg \<Rightarrow> Response 502 (ErrorJson (''Proxy error: '' @ msg)))"
  using assms
  by (simp add: proxy_def proxy_buffered_def proxy_error_def logRequest_def Let_def
      split: option.splits)

text \<open>Witness for C3: a buffered 200 response with a working database.\<close>

theorem proxy_buffered_passthrough_witness:
  "ok (up_buffered 200) \<and> up_json (up_buffered 200) = Inr data_ok
   \<and> resp (proxy (penv0 (Fetched (up_buffered 200))) (body0 False) empty_ledger)
       = Response 200 (DataJson data_ok)"
  using proxy_buffered_passthrough [of "penv0 (Fetched (up_buffered 200))" "body0 False"
      "up_buffered 200" data_ok empty_ledger]
  by (simp add: penv0_def body0_def up_buffered_def env0_def or_str_def ok_def)

text \<open>
  C4. The streaming branch never looks at \<^verbatim>\<open>upstream.ok\<close>. A rejected call (401
  with a JSON error body) is answered with status 200, not 401; and when a response with
  status 529 carries usage events, a record with those counts is logged and stored.
\<close>

theorem proxy_stream_ignores_upstream_status:
  "resp (proxy (penv0 (Fetched (up_streamed 401 [error_json]))) (body0 True) empty_ledger)
     = Response 200 (EventStream [error_json])
   \<and> (let out = proxy (penv0 (Fetched (up_streamed 529 chunks0))) (body0 True) empty_ledger
      in resp out = Response 200 (EventStream chunks0) \<and>
         map_option input_tokens (logged out) = Some 100 \<and>
         map_option output_tokens (logged out) = Some 120 \<and>
         map (\<lambda>r. request_id (row_rec r)) (requests (db out)) = [''generated-uuid''])"
  by (simp add: relay_defs ledger_defs js_defs sample_defs stream_defs text_defs)

text \<open>
  C7, as the claim states it, fails: the route draws \<^verbatim>\<open>requestId\<close> from
  \<^verbatim>\<open>crypto.randomUUID()\<close> for every call and never reads an identifier from the
  payload. A call whose payload carries \<^verbatim>\<open>request_id: 'client-req-1'\<close> is stored
  under the generated identifier.
\<close>

theorem proxy_ignores_client_request_id:
  "b_request_id (body0 False) = Some ''client-req-1''
   \<and> map_option request_id
        (logged (proxy (penv0 (Fetched (up_buffered 200))) (body0 False) empty_ledger))
      = Some ''generated-uuid''
   \<and> map (\<lambda>r. request_id (row_rec r))
        (requests (db (proxy (penv0 (Fetched (up_buffered 200))) (body0 False) empty_ledger)))
      = [''generated-uuid'']"
  by (simp add: relay_defs ledger_defs js_defs sample_defs calcCost_sonnet_dated)

text \<open>
  C7, amended. The record logged for a forwarded call carries the identifier that the
  relay generated for that call, whatever the payload contains, and a row with that
  identifier is stored. A manual entry carries an identifier generated by
  \<^verbatim>\<open>logRequest\<close>. \<^verbatim>\<open>logRequest\<close> itself generates an identifier only when its
  argument has none (or an empty one).
\<close>

theorem request_id_assignment:
  "(logged (proxy env b L) = Some r \<and> requestId env \<noteq> [] \<longrightarrow>
      request_id r = requestId env \<and>
      requestId env
        \<in> set (map (\<lambda>row. request_id (row_rec row)) (requests (db (proxy env b L)))))
   \<and> (logged (manual e mb L) = Some r' \<longrightarrow> request_id r' = uuid e)
   \<and> (logRequest e data L = Inr (r'', L'') \<longrightarrow>
        request_id r'' =
          (case d_request_id data of
             None \<Rightarrow> uuid e
           | Some i \<Rightarrow> if i = [] then uuid e else i))"
proof -
  have 1: "request_id r = requestId env \<and>
      requestId env
        \<in> set (map (\<lambda>row. request_id (row_rec row)) (requests (db (proxy env b L))))"
    if "logged (proxy env b L) = Some r" "requestId env \<noteq> []"
  proof -
    from that(1) obtain data where
      l: "logRequest (log_e env) data L = Inr (r, db (proxy env b L))" and
      d: "d_request_id data = Some (requestId env)"
      using proxy_logged by blast
    from logRequest_request_id [OF l] d that(2) have eq: "request_id r = requestId env"
      by (simp add: or_str_def)
    from logRequest_request_id [OF l]
    have "request_id r
        \<in> set (map (\<lambda>row. request_id (row_rec row)) (requests (db (proxy env b L))))"
      by blast
    then show ?thesis unfolding eq by (simp add: eq)
  qed
  have 2: "request_id r' = uuid e" if "logged (manual e mb L) = Some r'"
    using logRequest_request_id [OF manual_logged [OF that]] by (simp add: or_str_def)
  have 3: "request_id r'' =
          (case d_request_id data of None \<Rightarrow> uuid e | Some i \<Rightarrow> if i = [] then uuid e else i)"
    if "logRequest e data L = Inr (r'', L'')"
    using logRequest_request_id [OF that] by (simp add: or_str_def)
  from 1 2 3 show ?thesis by blast
qed

text \<open>Witness for C7: a forwarded call and a manual entry on the empty ledger.\<close>

theorem request_id_assignment_witness:
  "logged (proxy (penv0 (Fetched (up_buffered 200))) (body0 False) empty_ledger)
     = Some \<lparr>request_id = ''generated-uuid'', model = ''claude-sonnet-4-5-20250929'',
         input_tokens = 1000, output_tokens = 200, cache_read_tokens = 30,
         cache_write_tokens = 40, cost_usd = 3 / 500, source = ''proxy'',
         endpoint = ''/v1/messages''\<rparr>
   \<and> ''generated-uuid''
       \<in> set (map (\<lambda>row. request_id (row_rec row))
           (requests (db (proxy (penv0 (Fetched (up_buffered 200))) (body0 False)
              empty_ledger))))
   \<and> logged (manual env0 mb0 empty_ledger)
     = Some \<lparr>request_id = ''generated-1'', model = ''claude-sonnet-4-5'',
         input_tokens = 1200, output_tokens = 0, cache_read_tokens = 0,
         cache_write_tokens = 0, cost_usd = 9 / 2500, source = ''manual'',
         endpoint = ''/v1/messages''\<rparr>"
  using request_id_assignment [where env = "penv0 (Fetched (up_buffered 200))"
      and b = "body0 False" and L = empty_ledger
      and r = "\<lparr>request_id = ''generated-uuid'', model = ''claude-sonnet-4-5-20250929'',
         input_tokens = 1000, output_tokens = 200, cache_read_tokens = 30,
         cache_write_tokens = 40, cost_usd = 3 / 500, source = ''proxy'',
         endpoint = ''/v1/messages''\<rparr>"
      and e = env0 and mb = mb0
      and r' = "\<lparr>request_id = ''generated-1'', model = ''claude-sonnet-4-5'',
         input_tokens = 1200, output_tokens = 0, cache_read_tokens = 0,
         cache_write_tokens = 0, cost_usd = 9 / 2500, source = ''manual'',
         endpoint = ''/v1/messages''\<rparr>"]
  by (simp add: relay_defs ledger_defs js_defs sample_defs manual_def calcCost_sonnet
      calcCost_sonnet_dated)

lemma proxy_buffered_logged_cache:
  assumes "\<not> b_stream b" and "fetch env = Fetched up" and "up_json up = Inr data"
    and "dt_usage data = Some u" and "logged (proxy env b L) = Some r"
  shows "cache_read_tokens r = or_num (u_cache_read_input_tokens u) 0 \<and>
         cache_write_tokens r = or_num (u_cache_creation_input_tokens u) 0"
  using assms
  by (auto simp: proxy_def proxy_buffered_def proxy_error_def logRequest_def Let_def
      or_num_def split: if_splits option.splits)

text \<open>
  C10. A record logged by a streamed call has \<^verbatim>\<open>cache_read_tokens\<close> and
  \<^verbatim>\<open>cache_write_tokens\<close> 0, and so has every row that the call adds to
  \<^verbatim>\<open>requests\<close>: the streaming branch passes no cache counts to \<^verbatim>\<open>logRequest\<close>.
  The non-streaming branch does: its record carries \<^verbatim>\<open>cache_read_input_tokens\<close> and
  \<^verbatim>\<open>cache_creation_input_tokens\<close> of the response's usage (0 for a missing one).
\<close>

theorem streamed_record_no_cache_tokens:
  assumes "b_stream b" and "logged (proxy env b L) = Some r"
  shows "cache_read_tokens r = 0 \<and> cache_write_tokens r = 0
     \<and> (\<forall>row \<in> set (requests (db (proxy env b L))) - set (requests L).
          cache_read_tokens (row_rec row) = 0 \<and> cache_write_tokens (row_rec row) = 0)
     \<and> (\<not> b_stream b' \<and> fetch env' = Fetched up' \<and> up_json up' = Inr data' \<and>
         dt_usage data' = Some u' \<and> logged (proxy env' b' L') = Some r' \<longrightarrow>
          cache_read_tokens r' =
            (case u_cache_read_input_tokens u' of None \<Rightarrow> 0 | Some n \<Rightarrow> n) \<and>
          cache_write_tokens r' =
            (case u_cache_creation_input_tokens u' of None \<Rightarrow> 0 | Some n \<Rightarrow> n))"
proof -
  from assms obtain up where
    p: "proxy env b L = proxy_stream env (or_str (b_model b) ''claude-sonnet-4-5'') up L"
    using proxy_streaming_logged by blast
  with assms(2) obtain data where
    l: "logRequest (log_e env) data L = Inr (r, db (proxy env b L))" and
    d: "d_cache_read_tokens data = None" "d_cache_write_tokens data = None"
    using proxy_stream_logged by metis
  from logRequest_cache [OF l] d
  have c: "cache_read_tokens r = 0 \<and> cache_write_tokens r = 0"
    by (simp add: or_num_def)
  from logRequest_rows [OF l] c
  have 1: "cache_read_tokens r = 0 \<and> cache_write_tokens r = 0
     \<and> (\<forall>row \<in> set (requests (db (proxy env b L))) - set (requests L).
          cache_read_tokens (row_rec row) = 0 \<and> cache_write_tokens (row_rec row) = 0)"
    by auto
  have 2: "cache_read_tokens r' =
            (case u_cache_read_input_tokens u' of None \<Rightarrow> 0 | Some n \<Rightarrow> n) \<and>
          cache_write_tokens r' =
            (case u_cache_creation_input_tokens u' of None \<Rightarrow> 0 | Some n \<Rightarrow> n)"
    if "\<not> b_stream b'" "fetch env' = Fetched up'" "up_json up' = Inr data'"
      "dt_usage data' = Some u'" "logged (proxy env' b' L') = Some r'"
    using proxy_buffered_logged_cache [OF that]
    by (simp add: or_num_def split: option.splits)
  from 1 2 show ?thesis by blast
qed

text \<open>
  Witness for C10: the sample stream, answered with status 200, and the sample buffered
  response, whose usage has the cache counts 30 and 40.
\<close>

theorem streamed_record_no_cache_tokens_witness:
  "b_stream (body0 True)
   \<and> logged (proxy (penv0 (Fetched (up_streamed 200 chunks0))) (body0 True) empty_ledger)
     = Some \<lparr>request_id = ''generated-uuid'', model = ''claude-sonnet-4-5'',
         input_tokens = 100, output_tokens = 120, cache_read_tokens = 0,
         cache_write_tokens = 0, cost_usd = 21 / 10000, source = ''proxy'',
         endpoint = ''/v1/messages''\<rparr>
   \<and> logged (proxy (penv0 (Fetched (up_buffered 200))) (body0 False) empty_ledger)
     = Some \<lparr>request_id = ''generated-uuid'', model = ''claude-sonnet-4-5-20250929'',
         input_tokens = 1000, output_tokens = 200, cache_read_tokens = 30,
         cache_write_tokens = 40, cost_usd = 3 / 500, source = ''proxy'',
         endpoint = ''/v1/messages''\<rparr>"
  using streamed_record_no_cache_tokens [where b = "body0 True"
      and env = "penv0 (Fetched (up_streamed 200 chunks0))" and L = empty_ledger
      and r = "\<lparr>request_id = ''generated-uuid'', model = ''claude-sonnet-4-5'',
         input_tokens = 100, output_tokens = 120, cache_read_tokens = 0,
         cache_write_tokens = 0, cost_usd = 21 / 10000, source = ''proxy'',
         endpoint = ''/v1/messages''\<rparr>"
      and b' = "body0 False" and env' = "penv0 (Fetched (up_buffered 200))"
      and up' = "up_buffered 200" and data' = data_ok and L' = empty_ledger
      and u' = "\<lparr>u_input_tokens = Some 1000, u_output_tokens = Some 200,
                       u_cache_read_input_tokens = Some 30,
                       u_cache_creation_input_tokens = Some 40\<rparr>"
      and r' = "\<lparr>request_id = ''generated-uuid'', model = ''claude-sonnet-4-5-20250929'',
         input_tokens = 1000, output_tokens = 200, cache_read_tokens = 30,
         cache_write_tokens = 40, cost_usd = 3 / 500, source = ''proxy'',
         endpoint = ''/v1/messages''\<rparr>"]
  by (simp add: relay_defs ledger_defs js_defs sample_defs stream_defs text_defs
      calcCost_sonnet calcCost_sonnet_dated)


subsection \<open>Facts about every stored record\<close>

lemma serve_db:
  "db (serve q L) = L \<or> (\<exists>e data r. logRequest e data L = Inr (r, db (serve q L)))"
proof (cases q)
  case (Manual e mb)
  then show ?thesis
    by (auto simp: manual_def split: sum.splits)
next
  case (Proxy env b)
  then show ?thesis
    by (auto simp: proxy_def proxy_error_def proxy_stream_def proxy_buffered_def Let_def
        split: fetched.splits stream_end.splits sum.splits)
qed

lemma serve_cost_derived:
  assumes "\<forall>row \<in> set (requests L). cost_usd (row_rec row) =
      calcCost (model (row_rec row)) (input_tokens (row_rec row)) (output_tokens (row_rec row))"
  shows "\<forall>row \<in> set (requests (db (serve q L))). cost_usd (row_rec row) =
      calcCost (model (row_rec row)) (input_tokens (row_rec row)) (output_tokens (row_rec row))"
proof -
  from serve_db [of q L] show ?thesis
  proof
    assume "db (serve q L) = L"
    with assms show ?thesis by simp
  next
    assume "\<exists>e data r. logRequest e data L = Inr (r, db (serve q L))"
    then obtain e data r where l: "logRequest e data L = Inr (r, db (serve q L))"
      by blast
    from logRequest_rows [OF l] logRequest_cost [OF l] assms show ?thesis
      by auto
  qed
qed

lemma serve_all_cost_derived:
  assumes "\<forall>row \<in> set (requests L). cost_usd (row_rec row) =
      calcCost (model (row_rec row)) (input_tokens (row_rec row)) (output_tokens (row_rec row))"
  shows "\<forall>row \<in> set (requests (serve_all qs L)). cost_usd (row_rec row) =
      calcCost (model (row_rec row)) (input_tokens (row_rec row)) (output_tokens (row_rec row))"
  using assms
proof (induction qs arbitrary: L)
  case Nil
  then show ?case by simp
next
  case (Cons q qs)
  from Cons.IH [OF serve_cost_derived [OF Cons.prems]] show ?case by simp
qed

text \<open>
  C8, as the claim states it, fails: nothing checks the sign of a token count. A manual
  entry whose \<^verbatim>\<open>input_tokens\<close> reads as \<open>-5\<close> is stored with \<open>-5\<close> input tokens
  and a negative cost.
\<close>

theorem manual_stores_negative_tokens:
  "map (\<lambda>row. (input_tokens (row_rec row), cost_usd (row_rec row)))
     (requests (serve_all [Manual env0 mb_neg] empty_ledger)) = [(- 5, - (3 / 200000))]"
  by (simp add: manual_def ledger_defs js_defs sample_defs calcCost_sonnet)

text \<open>
  C8, amended. After any sequence of manual entries and forwarded calls on the empty
  ledger, the cost of every stored record is \<^verbatim>\<open>calcCost\<close> of its model and its
  input and output tokens, so it is never supplied by the caller, and it is not negative
  when these two counts are not negative. The four token counts of a record are those
  given to \<^verbatim>\<open>logRequest\<close>, 0 for a missing one, whatever their sign; for a manual
  entry they are what \<^verbatim>\<open>parseInt\<close> reads (0 for NaN) and the cache counts are 0.
\<close>

theorem stored_cost_derived:
  "(\<forall>row \<in> set (requests (serve_all qs empty_ledger)).
      cost_usd (row_rec row) =
        calcCost (model (row_rec row)) (input_tokens (row_rec row))
          (output_tokens (row_rec row)) \<and>
      (0 \<le> input_tokens (row_rec row) \<and> 0 \<le> output_tokens (row_rec row) \<longrightarrow>
         0 \<le> cost_usd (row_rec row)))
   \<and> (logRequest e data L = Inr (r, L') \<longrightarrow>
        input_tokens r = (case d_input_tokens data of None \<Rightarrow> 0 | Some n \<Rightarrow> n) \<and>
        output_tokens r = (case d_output_tokens data of None \<Rightarrow> 0 | Some n \<Rightarrow> n) \<and>
        cache_read_tokens r = (case d_cache_read_tokens data of None \<Rightarrow> 0 | Some n \<Rightarrow> n) \<and>
        cache_write_tokens r =
          (case d_cache_write_tokens data of None \<Rightarrow> 0 | Some n \<Rightarrow> n))
   \<and> (logged (manual e mb L) = Some r' \<longrightarrow>
        input_tokens r' = (case mb_input_tokens mb of None \<Rightarrow> 0 | Some n \<Rightarrow> n) \<and>
        output_tokens r' = (case mb_output_tokens mb of None \<Rightarrow> 0 | Some n \<Rightarrow> n) \<and>
        cache_read_tokens r' = 0 \<and> cache_write_tokens r' = 0)"
proof -
  have "\<forall>row \<in> set (requests (serve_all qs empty_ledger)). cost_usd (row_rec row) =
      calcCost (model (row_rec row)) (input_tokens (row_rec row)) (output_tokens (row_rec row))"
    by (rule serve_all_cost_derived) (simp add: empty_ledger_def)
  then have 1: "\<forall>row \<in> set (requests (serve_all qs empty_ledger)).
      cost_usd (row_rec row) =
        calcCost (model (row_rec row)) (input_tokens (row_rec row))
          (output_tokens (row_rec row)) \<and>
      (0 \<le> input_tokens (row_rec row) \<and> 0 \<le> output_tokens (row_rec row) \<longrightarrow>
         0 \<le> cost_usd (row_rec row))"
    by (simp add: calcCost_nonneg)
  have 3: "input_tokens r' = (case mb_input_tokens mb of None \<Rightarrow> 0 | Some n \<Rightarrow> n) \<and>
        output_tokens r' = (case mb_output_tokens mb of None \<Rightarrow> 0 | Some n \<Rightarrow> n) \<and>
        cache_read_tokens r' = 0 \<and> cache_write_tokens r' = 0"
    if "logged (manual e mb L) = Some r'"
    using logRequest_tokens [OF manual_logged [OF that]]
    by (simp add: or_num_def split: option.splits)
  from 1 3 logRequest_tokens show ?thesis by blast
qed

text \<open>Witness for C8: one manual entry on the empty ledger.\<close>

theorem stored_cost_derived_witness:
  "requests (serve_all [Manual env0 mb0] empty_ledger) =
     [\<lparr>row_id = 1,
       row_rec = \<lparr>request_id = ''generated-1'', model = ''claude-sonnet-4-5'',
         input_tokens = 1200, output_tokens = 0, cache_read_tokens = 0,
         cache_write_tokens = 0, cost_usd = 9 / 2500, source = ''manual'',
         endpoint = ''/v1/messages''\<rparr>,
       created_at = ''2025-01-01 10:00:00''\<rparr>]
   \<and> calcCost ''claude-sonnet-4-5'' 1200 0 = 9 / 2500"
  using stored_cost_derived [where qs = "[Manual env0 mb0]" and e = env0 and mb = mb0 and L = empty_ledger
      and r' = "\<lparr>request_id = ''generated-1'', model = ''claude-sonnet-4-5'',
         input_tokens = 1200, output_tokens = 0, cache_read_tokens = 0,
         cache_write_tokens = 0, cost_usd = 9 / 2500, source = ''manual'',
         endpoint = ''/v1/messages''\<rparr>"]
  by (simp add: manual_def ledger_defs js_defs sample_defs calcCost_sonnet)

end
